theory Spec2Isabelle
  imports Main
begin

section \<open>Stored documents\<close>

text \<open>
  The middleware of \<^verbatim>\<open>examples/mongo/app/middleware.js\<close> works on three Mongoose models,
  \<^verbatim>\<open>User\<close>, \<^verbatim>\<open>Role\<close> and \<^verbatim>\<open>Article\<close>. Only the fields the middleware names are modelled:
  \<^verbatim>\<open>_id\<close>, \<^verbatim>\<open>username\<close>, \<^verbatim>\<open>password\<close>, \<^verbatim>\<open>roles\<close>, \<^verbatim>\<open>owner\<close> and the \<^verbatim>\<open>permissions\<close> of a user.
  JavaScript exceptions are values of \<open>exn\<close>; a computation that may throw (or a promise that
  may reject) has type \<open>exn + 'a\<close>, with \<open>Inl\<close> the exception.
\<close>

datatype exn =
  TypeError
  | DocumentNotFoundError
  | MissingPolicy
  | MissingAction
  | Failure string

text \<open>
  A reference field holds the id of another document until it is populated; a populated
  single reference whose target does not exist is \<^verbatim>\<open>null\<close>.
\<close>

datatype 'a ref = Ref string | Doc 'a | NullRef

record role =
  role_id :: string

text \<open>
  \<open>password\<close> is \<open>None\<close> when the field was excluded from the selection. \<open>permissions\<close> is
  what awaiting \<^verbatim>\<open>user.permissions\<close> yields: the permission set, or the exception the getter
  throws.
\<close>

record user =
  user_id :: string
  username :: string
  password :: "string option"
  roles :: "role ref list"
  permissions :: "exn + string list"

record article =
  article_id :: string
  owner :: "user ref"

text \<open>
  The database: the three collections, and \<open>outage\<close>, the exception every query rejects with
  while the database cannot answer (\<open>None\<close> when it can).
\<close>

record db =
  Users :: "user list"
  Roles :: "role list"
  Articles :: "article list"
  outage :: "exn option"

section \<open>Events\<close>

text \<open>
  What a stage does besides changing the request is recorded as events, in program order:
  the calls of the collaborators, the queries sent to the database, and the writes.
\<close>

datatype event =
  DecodeToken
  | QueryUsers
  | QueryRoles
  | QueryArticles
  | ReadPermissions
  | CallAuthorize
  | ConsoleLog exn
  | ContextReset
  | ContextWrite string
  | UserWrite

section \<open>Mongoose queries\<close>

text \<open>
  A query, once awaited against the database, rejects or resolves to a document or \<^verbatim>\<open>null\<close>,
  and has sent its queries to the database by then. Each function below stands for one call
  of the Mongoose API as the middleware writes it.
\<close>

type_synonym 'a query = "db \<Rightarrow> event list \<times> (exn + 'a option)"

definition findOne :: "event \<Rightarrow> (db \<Rightarrow> 'a list) \<Rightarrow> ('a \<Rightarrow> bool) \<Rightarrow> 'a query" where
  "findOne sent collection matches d =
     ([sent],
      case outage d of
        Some e \<Rightarrow> Inl e
      | None \<Rightarrow> Inr (find matches (collection d)))"

text \<open>\<^verbatim>\<open>User.findOne({ username })\<close>\<close>

definition User_findOne_username :: "string \<Rightarrow> user query" where
  "User_findOne_username name = findOne QueryUsers Users (\<lambda>u. username u = name)"

text \<open>
  \<^verbatim>\<open>User.findOne({ _id: id })\<close>, \<^verbatim>\<open>Role.findOne({ _id: id })\<close>, \<^verbatim>\<open>Article.findOne({ _id: id })\<close>;
  \<open>id\<close> is \<open>None\<close> when \<^verbatim>\<open>req.params.id\<close> is undefined, which no stored \<^verbatim>\<open>_id\<close> equals.
\<close>

definition User_findOne_id :: "string option \<Rightarrow> user query" where
  "User_findOne_id i = findOne QueryUsers Users (\<lambda>u. i = Some (user_id u))"

definition Role_findOne_id :: "string option \<Rightarrow> role query" where
  "Role_findOne_id i = findOne QueryRoles Roles (\<lambda>r. i = Some (role_id r))"

definition Article_findOne_id :: "string option \<Rightarrow> article query" where
  "Article_findOne_id i = findOne QueryArticles Articles (\<lambda>a. i = Some (article_id a))"

text \<open>
  Populating a reference replaces the id by the document it names. In an array of
  references an id with no document is dropped; a single reference becomes \<^verbatim>\<open>null\<close>.
  Populating is a second query, to the collection of the documents referred to, sent once
  the first query has found a document that holds an id to resolve.
\<close>

fun pending :: "'a ref \<Rightarrow> bool" where
  "pending (Ref i) = True"
| "pending r = False"

fun populate_many :: "(string \<Rightarrow> 'a option) \<Rightarrow> 'a ref list \<Rightarrow> 'a ref list" where
  "populate_many lookup [] = []"
| "populate_many lookup (Ref i # rs) =
     (case lookup i of
        None \<Rightarrow> populate_many lookup rs
      | Some x \<Rightarrow> Doc x # populate_many lookup rs)"
| "populate_many lookup (r # rs) = r # populate_many lookup rs"

fun populate_one :: "(string \<Rightarrow> 'a option) \<Rightarrow> 'a ref \<Rightarrow> 'a ref" where
  "populate_one lookup (Ref i) = (case lookup i of None \<Rightarrow> NullRef | Some x \<Rightarrow> Doc x)"
| "populate_one lookup r = r"

definition role_by_id :: "db \<Rightarrow> string \<Rightarrow> role option" where
  "role_by_id d i = find (\<lambda>r. role_id r = i) (Roles d)"

definition user_by_id :: "db \<Rightarrow> string \<Rightarrow> user option" where
  "user_by_id d i = find (\<lambda>u. user_id u = i) (Users d)"

text \<open>\<^verbatim>\<open>.populate("roles")\<close> on a user query\<close>

definition populate_roles :: "user query \<Rightarrow> user query" where
  "populate_roles q d =
     (let (sent, found) = q d
      in case found of
           Inl e \<Rightarrow> (sent, Inl e)
         | Inr None \<Rightarrow> (sent, Inr None)
         | Inr (Some u) \<Rightarrow>
             (sent @ (if list_ex pending (roles u) then [QueryRoles] else []),
              Inr (Some (u\<lparr>roles := populate_many (role_by_id d) (roles u)\<rparr>))))"

text \<open>\<^verbatim>\<open>.populate("owner", "-password")\<close> on an article query\<close>

definition populate_owner_minus_password :: "article query \<Rightarrow> article query" where
  "populate_owner_minus_password q d =
     (let (sent, found) = q d
      in case found of
           Inl e \<Rightarrow> (sent, Inl e)
         | Inr None \<Rightarrow> (sent, Inr None)
         | Inr (Some a) \<Rightarrow>
             (sent @ (if pending (owner a) then [QueryUsers] else []),
              Inr (Some (a\<lparr>owner :=
                populate_one (\<lambda>i. map_option (\<lambda>u. u\<lparr>password := None\<rparr>) (user_by_id d i))
                  (owner a)\<rparr>))))"

text \<open>\<^verbatim>\<open>.orFail()\<close>: a query that finds nothing rejects instead of resolving to \<^verbatim>\<open>null\<close>.\<close>

definition orFail :: "'a query \<Rightarrow> db \<Rightarrow> event list \<times> (exn + 'a)" where
  "orFail q d =
     (let (sent, found) = q d
      in (sent,
          case found of
            Inl e \<Rightarrow> Inl e
          | Inr None \<Rightarrow> Inl DocumentNotFoundError
          | Inr (Some x) \<Rightarrow> Inr x))"

section \<open>Requests, responses and stages\<close>

datatype entity = ArticleE article | RoleE role | UserE user

text \<open>
  \<^verbatim>\<open>req.user\<close> is undefined until \<^verbatim>\<open>authenticate\<close> assigns it, and then holds what
  \<^verbatim>\<open>User.findOne\<close> resolved to: a document or \<^verbatim>\<open>null\<close>.
\<close>

datatype caller = Undefined | Null | Value user

text \<open>
  \<^verbatim>\<open>req.context\<close> is undefined (\<open>None\<close>) until \<^verbatim>\<open>init\<close> assigns the empty object; an object is
  a map from its keys. The field is named \<open>req_context\<close> here.
\<close>

record request =
  url :: string
  headers :: "string \<rightharpoonup> string"
  params :: "string \<rightharpoonup> string"
  user :: caller
  req_context :: "(string \<rightharpoonup> entity) option"

text \<open>
  A stage either calls \<^verbatim>\<open>next()\<close> or sends \<^verbatim>\<open>res.status(s).json({ message: m })\<close>.
\<close>

datatype step = Next | Respond nat string

record result =
  events :: "event list"
  req_after :: request
  step :: step

type_synonym stage = "request \<Rightarrow> result"

text \<open>
  Express runs the handlers in registration order; \<^verbatim>\<open>next()\<close> enters the following
  handler, and a handler that responds ends the chain.
\<close>

fun run :: "stage list \<Rightarrow> request \<Rightarrow> result" where
  "run [] req = \<lparr>events = [], req_after = req, step = Next\<rparr>"
| "run (s # ss) req =
     (case step (s req) of
        Respond status message \<Rightarrow> s req
      | Next \<Rightarrow>
          (let r = run ss (req_after (s req))
           in r\<lparr>events := events (s req) @ events r\<rparr>))"

section \<open>The authorization engine and the policies\<close>

text \<open>
  \<^verbatim>\<open>authorize\<close> of \<^verbatim>\<open>lib\<close> and the module \<^verbatim>\<open>./policies\<close> are not among the sources. The
  middleware calls \<^verbatim>\<open>authorize(action, entity, userPermissions, policies, req)\<close> inside a
  \<^verbatim>\<open>try\<close> block and negates what it returns, so all it can see of the engine is an engine
  that throws or returns a value that is truthy (\<open>True\<close>) or falsy (\<open>False\<close>). The engine is a
  parameter of that type, and so are the policies it is given.
\<close>

text \<open>
  Modelled from the spec: the shape of the policy registry of \<^verbatim>\<open>./policies\<close> (section 3), a
  mapping from an entity name to a mapping from an action name to a predicate of the
  permission set and the request.
\<close>

type_synonym predicate = "string list \<Rightarrow> request \<Rightarrow> exn + bool"

type_synonym registry = "string \<rightharpoonup> (string \<rightharpoonup> predicate)"

type_synonym engine =
  "string \<Rightarrow> string \<Rightarrow> string list \<Rightarrow> registry \<Rightarrow> request \<Rightarrow> exn + bool"

section \<open>The middleware\<close>

text \<open>\<^verbatim>\<open>init\<close>: \<^verbatim>\<open>req.context = {}; return next();\<close>\<close>

definition init :: stage where
  "init req = \<lparr>events = [ContextReset], req_after = req\<lparr>req_context := Some Map.empty\<rparr>, step = Next\<rparr>"

text \<open>
  \<^verbatim>\<open>authenticate\<close>. \<open>decodeAuthToken\<close> (of \<^verbatim>\<open>utils\<close>, not among the sources) is a parameter: it
  yields the username of the token or throws.
\<close>

definition authenticate :: "(request \<Rightarrow> exn + string) \<Rightarrow> db \<Rightarrow> stage" where
  "authenticate decodeAuthToken d req =
     (if url req = ''/'' \<or> url req = ''/auth/login''
      then \<lparr>events = [], req_after = req, step = Next\<rparr>
      else
        (case decodeAuthToken req of
           Inl e \<Rightarrow>
             \<lparr>events = [DecodeToken], req_after = req,
              step = Respond 401 ''Sorry :( Log in and try again.''\<rparr>
         | Inr name \<Rightarrow>
             (case User_findOne_username name d of
                (sent, Inl e) \<Rightarrow>
                  \<lparr>events = DecodeToken # sent, req_after = req,
                   step = Respond 401 ''Sorry :( Log in and try again.''\<rparr>
              | (sent, Inr found) \<Rightarrow>
                  \<lparr>events = DecodeToken # sent @ [UserWrite],
                   req_after = req\<lparr>user := (case found of None \<Rightarrow> Null | Some u \<Rightarrow> Value u)\<rparr>,
                   step = Next\<rparr>)))"

text \<open>
  \<^verbatim>\<open>await req.user.permissions\<close>: reading a property of \<^verbatim>\<open>undefined\<close> or \<^verbatim>\<open>null\<close> throws a
  \<^verbatim>\<open>TypeError\<close> before any permission source is reached.
\<close>

definition user_permissions :: "request \<Rightarrow> event list \<times> (exn + string list)" where
  "user_permissions req =
     (case user req of
        Undefined \<Rightarrow> ([], Inl TypeError)
      | Null \<Rightarrow> ([], Inl TypeError)
      | Value u \<Rightarrow> ([ReadPermissions], permissions u))"

text \<open>
  \<^verbatim>\<open>can(action, entity)\<close>, with the engine and the policies as parameters. What
  \<^verbatim>\<open>authorize\<close> returns goes through \<^verbatim>\<open>!\<close>: a falsy value is answered with 403, a truthy one
  calls \<^verbatim>\<open>next()\<close>. The \<^verbatim>\<open>catch\<close> block takes every exception of the \<^verbatim>\<open>try\<close> block, logs it
  and answers 500.
\<close>

definition can :: "engine \<Rightarrow> registry \<Rightarrow> string \<Rightarrow> string \<Rightarrow> stage" where
  "can authorize policies action entity req =
     (case user_permissions req of
        (evs, Inl e) \<Rightarrow>
          \<lparr>events = evs @ [ConsoleLog e], req_after = req,
           step = Respond 500 ''Sorry :( Something bad happened.''\<rparr>
      | (evs, Inr userPermissions) \<Rightarrow>
          (case authorize action entity userPermissions policies req of
             Inl e \<Rightarrow>
               \<lparr>events = evs @ [CallAuthorize, ConsoleLog e], req_after = req,
                step = Respond 500 ''Sorry :( Something bad happened.''\<rparr>
           | Inr allowed \<Rightarrow>
               if \<not> allowed
               then \<lparr>events = evs @ [CallAuthorize], req_after = req,
                      step = Respond 403 ''You are not authorized to perform this action.''\<rparr>
               else \<lparr>events = evs @ [CallAuthorize], req_after = req, step = Next\<rparr>))"

text \<open>
  \<^verbatim>\<open>req.context.key = value\<close>: assigning a property of \<^verbatim>\<open>undefined\<close> throws a \<^verbatim>\<open>TypeError\<close>,
  which the surrounding \<^verbatim>\<open>try\<close> turns into the stage's 404.
\<close>

definition store :: "string \<Rightarrow> string \<Rightarrow> event list \<times> (exn + entity) \<Rightarrow> stage" where
  "store key message awaited req =
     (case awaited of
        (sent, Inl e) \<Rightarrow> \<lparr>events = sent, req_after = req, step = Respond 404 message\<rparr>
      | (sent, Inr x) \<Rightarrow>
          (case req_context req of
             None \<Rightarrow> \<lparr>events = sent, req_after = req, step = Respond 404 message\<rparr>
           | Some c \<Rightarrow>
               \<lparr>events = sent @ [ContextWrite key],
                req_after = req\<lparr>req_context := Some (c(key \<mapsto> x))\<rparr>,
                step = Next\<rparr>))"

definition processArticleParam :: "db \<Rightarrow> stage" where
  "processArticleParam d req =
     (let i = params req ''id''
      in store ''article'' ''The article does not exist.''
           (map_prod id (map_sum id ArticleE)
              (orFail (populate_owner_minus_password (Article_findOne_id i)) d)) req)"

definition processRoleParam :: "db \<Rightarrow> stage" where
  "processRoleParam d req =
     (let i = params req ''id''
      in store ''role'' ''The role does not exist.''
           (map_prod id (map_sum id RoleE) (orFail (Role_findOne_id i) d)) req)"

definition processUserParam :: "db \<Rightarrow> stage" where
  "processUserParam d req =
     (let i = params req ''id''
      in store ''user'' ''The user does not exist.''
           (map_prod id (map_sum id UserE) (orFail (populate_roles (User_findOne_id i)) d)) req)"

section \<open>Observations on requests and events\<close>



section \<open>The messages of the spec's response table\<close>

text \<open>
  The body messages as the spec's table of responses (section 6) writes them, for comparison
  with the literals of the middleware. The dash of the table is U+2014, three bytes in UTF-8.
\<close>

definition spec_auth_failure_message :: string where
  "spec_auth_failure_message =
     ''Sorry '' @ [CHR 0xE2, CHR 0x80, CHR 0x94] @ '' log in and try again.''"

definition spec_config_fault_message :: string where
  "spec_config_fault_message =
     ''Sorry '' @ [CHR 0xE2, CHR 0x80, CHR 0x94] @ '' something bad happened.''"

section \<open>A sample application\<close>

text \<open>
  One user with a stored and a dangling role reference, one role, one article owned by the
  user; a registry with three actions on articles, of which \<^verbatim>\<open>view\<close> reads the request
  context and throws where there is none; an engine that looks the entity and the action up
  in the registry, throws where either is missing (the two exceptions the \<^verbatim>\<open>catch\<close> block of
  \<^verbatim>\<open>can\<close> speaks of) and otherwise returns what the predicate returns; a token decoder that reads the username
  after \<^verbatim>\<open>Bearer \<close> in the authorization header.
\<close>

definition editor :: role where
  "editor = \<lparr>role_id = ''r1''\<rparr>"

definition alice :: user where
  "alice = \<lparr>user_id = ''u1'', username = ''alice'', password = Some ''secret'',
     roles = [Ref ''r1'', Ref ''r9''], permissions = Inr [''article.edit'']\<rparr>"

definition article42 :: article where
  "article42 = \<lparr>article_id = ''42'', owner = Ref ''u1''\<rparr>"

definition sample_db :: db where
  "sample_db = \<lparr>Users = [alice], Roles = [editor], Articles = [article42], outage = None\<rparr>"

definition sample_policies :: registry where
  "sample_policies =
     [''article'' \<mapsto>
        [''edit'' \<mapsto> (\<lambda>perms req. Inr (''article.edit'' \<in> set perms)),
         ''delete'' \<mapsto> (\<lambda>perms req. Inr (''article.delete'' \<in> set perms)),
         ''view'' \<mapsto>
           (\<lambda>perms req.
              case req_context req of
                None \<Rightarrow> Inl TypeError
              | Some c \<Rightarrow> Inr (c ''article'' \<noteq> None))]]"

definition sample_authorize :: engine where
  "sample_authorize action entity perms registry req =
     (case registry entity of
        None \<Rightarrow> Inl MissingPolicy
      | Some policy \<Rightarrow>
          (case policy action of
             None \<Rightarrow> Inl MissingAction
           | Some allowed \<Rightarrow> allowed perms req))"

definition sample_decode :: "request \<Rightarrow> exn + string" where
  "sample_decode req =
     (case headers req ''authorization'' of
        None \<Rightarrow> Inl (Failure ''no token'')
      | Some t \<Rightarrow>
          if take 7 t = ''Bearer '' then Inr (drop 7 t) else Inl (Failure ''bad token''))"

definition sample_request :: "string \<Rightarrow> string option \<Rightarrow> string option \<Rightarrow> request" where
  "sample_request target token i =
     \<lparr>url = target,
      headers = (case token of None \<Rightarrow> Map.empty | Some t \<Rightarrow> [''authorization'' \<mapsto> t]),
      params = (case i of None \<Rightarrow> Map.empty | Some v \<Rightarrow> [''id'' \<mapsto> v]),
      user = Undefined,
      req_context = None\<rparr>"

section \<open>Properties\<close>

lemma findOne_miss:
  "outage d = None \<Longrightarrow> \<forall>x\<in>set (coll d). \<not> m x \<Longrightarrow> findOne sent coll m d = ([sent], Inr None)"
  by (simp add: findOne_def find_None_iff)

text \<open>
  C4. The authentication bypass is an exact string match of the request target: for a request
  whose url is \<^verbatim>\<open>/\<close> or \<^verbatim>\<open>/auth/login\<close>, \<^verbatim>\<open>authenticate\<close> continues with the request as it
  was and decodes no token; for any other url the token is decoded, and where decoding
  fails the stage responds 401.
\<close>

theorem authenticate_public_bypass:
  "(url req = ''/'' \<or> url req = ''/auth/login'' \<longrightarrow>
      authenticate decodeAuthToken d req = \<lparr>events = [], req_after = req, step = Next\<rparr>)
   \<and> (url req \<noteq> ''/'' \<and> url req \<noteq> ''/auth/login'' \<longrightarrow>
        DecodeToken \<in> set (events (authenticate decodeAuthToken d req)))
   \<and> (url req \<noteq> ''/'' \<and> url req \<noteq> ''/auth/login'' \<and> decodeAuthToken req = Inl e \<longrightarrow>
        step (authenticate decodeAuthToken d req) = Respond 401 ''Sorry :( Log in and try again.'')"
  by (simp add: authenticate_def split: sum.splits prod.splits)

theorem authenticate_public_bypass_witness:
  "url (sample_request ''/auth/login'' None None) = ''/auth/login''
   \<and> authenticate sample_decode sample_db (sample_request ''/auth/login'' None None)
       = \<lparr>events = [], req_after = sample_request ''/auth/login'' None None, step = Next\<rparr>
   \<and> url (sample_request ''/auth/login/'' None None) \<noteq> ''/''
   \<and> url (sample_request ''/auth/login/'' None None) \<noteq> ''/auth/login''
   \<and> sample_decode (sample_request ''/auth/login/'' None None) = Inl (Failure ''no token'')
   \<and> DecodeToken \<in> set (events (authenticate sample_decode sample_db (sample_request ''/auth/login/'' None None)))
   \<and> step (authenticate sample_decode sample_db (sample_request ''/auth/login/'' None None))
       = Respond 401 ''Sorry :( Log in and try again.''"
  using authenticate_public_bypass [of "sample_request ''/auth/login'' None None" sample_decode sample_db]
    authenticate_public_bypass [of "sample_request ''/auth/login/'' None None" sample_decode sample_db "Failure ''no token''"]
  by (simp add: sample_request_def sample_decode_def)

text \<open>
  C2. The claim: a token that decodes to a username no stored user has ends the pipeline with
  401. On the sample application, for the token of the unknown user \<^verbatim>\<open>ghost\<close>,
  \<^verbatim>\<open>authenticate\<close> assigns \<^verbatim>\<open>null\<close> to \<^verbatim>\<open>req.user\<close> and calls \<^verbatim>\<open>next()\<close>: \<^verbatim>\<open>User.findOne\<close> is
  awaited without \<^verbatim>\<open>orFail()\<close>, so a user that is not found is no exception.
\<close>

theorem authenticate_unknown_caller_continues:
  "sample_decode (sample_request ''/articles/42'' (Some ''Bearer ghost'') (Some ''42'')) = Inr ''ghost''
   \<and> find (\<lambda>u. username u = ''ghost'') (Users sample_db) = None
   \<and> authenticate sample_decode sample_db
        (sample_request ''/articles/42'' (Some ''Bearer ghost'') (Some ''42''))
      = \<lparr>events = [DecodeToken, QueryUsers, UserWrite],
         req_after = (sample_request ''/articles/42'' (Some ''Bearer ghost'') (Some ''42''))\<lparr>user := Null\<rparr>,
         step = Next\<rparr>"
  by (simp add: authenticate_def sample_decode_def sample_db_def sample_request_def
      User_findOne_username_def findOne_def alice_def)

lemma user_permissions_no_caller:
  "user req = Null \<or> user req = Undefined \<Longrightarrow> user_permissions req = ([], Inl TypeError)"
  by (auto simp: user_permissions_def)

lemma can_no_caller:
  "user req = Null \<or> user req = Undefined \<Longrightarrow>
     can authorize policies action entity req =
       \<lparr>events = [ConsoleLog TypeError], req_after = req,
        step = Respond 500 ''Sorry :( Something bad happened.''\<rparr>"
  by (simp add: can_def user_permissions_no_caller)

text \<open>
  C10. For a request outside the public paths whose token decodes and whose username no
  stored user has, \<^verbatim>\<open>authenticate\<close> sets the caller to \<^verbatim>\<open>null\<close> and continues; a stage made by
  \<^verbatim>\<open>can\<close> that then receives the request faults on reading the permissions and responds 500,
  whatever the engine and the policies.
\<close>

theorem authenticate_unknown_caller_then_can_500:
  assumes "url req \<noteq> ''/''" and "url req \<noteq> ''/auth/login''"
    and "decodeAuthToken req = Inr name"
    and "outage d = None"
    and "\<forall>u\<in>set (Users d). username u \<noteq> name"
  shows "step (authenticate decodeAuthToken d req) = Next
     \<and> req_after (authenticate decodeAuthToken d req) = req\<lparr>user := Null\<rparr>
     \<and> step (can authorize policies action entity (req_after (authenticate decodeAuthToken d req)))
         = Respond 500 ''Sorry :( Something bad happened.''
     \<and> step (run [authenticate decodeAuthToken d, can authorize policies action entity] req)
         = Respond 500 ''Sorry :( Something bad happened.''"
proof -
  have q: "User_findOne_username name d = ([QueryUsers], Inr None)"
    using assms(4,5) by (simp add: User_findOne_username_def findOne_miss)
  have a: "authenticate decodeAuthToken d req =
      \<lparr>events = [DecodeToken, QueryUsers, UserWrite], req_after = req\<lparr>user := Null\<rparr>, step = Next\<rparr>"
    using assms(1,2,3) q by (simp add: authenticate_def)
  have c: "can authorize policies action entity (req\<lparr>user := Null\<rparr>) =
       \<lparr>events = [ConsoleLog TypeError], req_after = req\<lparr>user := Null\<rparr>,
        step = Respond 500 ''Sorry :( Something bad happened.''\<rparr>"
    by (simp add: can_no_caller)
  show ?thesis by (simp add: a c)
qed

theorem authenticate_unknown_caller_then_can_500_witness:
  "url (sample_request ''/articles/42'' (Some ''Bearer ghost'') (Some ''42'')) \<noteq> ''/''
   \<and> url (sample_request ''/articles/42'' (Some ''Bearer ghost'') (Some ''42'')) \<noteq> ''/auth/login''
   \<and> sample_decode (sample_request ''/articles/42'' (Some ''Bearer ghost'') (Some ''42'')) = Inr ''ghost''
   \<and> outage sample_db = None
   \<and> map username (Users sample_db) = [''alice'']
   \<and> step (run [authenticate sample_decode sample_db,
                 can sample_authorize sample_policies ''edit'' ''article'']
        (sample_request ''/articles/42'' (Some ''Bearer ghost'') (Some ''42'')))
       = Respond 500 ''Sorry :( Something bad happened.''"
proof -
  let ?r = "sample_request ''/articles/42'' (Some ''Bearer ghost'') (Some ''42'')"
  have h1: "url ?r \<noteq> ''/''" and h2: "url ?r \<noteq> ''/auth/login''"
    by (simp_all add: sample_request_def)
  have h3: "sample_decode ?r = Inr ''ghost''"
    by (simp add: sample_request_def sample_decode_def)
  have h4: "outage sample_db = None"
    by (simp add: sample_db_def)
  have h5: "\<forall>u\<in>set (Users sample_db). username u \<noteq> ''ghost''"
    by (simp add: sample_db_def alice_def)
  have m: "map username (Users sample_db) = [''alice'']"
    by (simp add: sample_db_def alice_def)
  show ?thesis
    using h1 h2 h3 h4 h5 m
      authenticate_unknown_caller_then_can_500
        [where req = ?r and decodeAuthToken = sample_decode and name = "''ghost''"
           and d = sample_db and authorize = sample_authorize and policies = sample_policies
           and action = "''edit''" and entity = "''article''"]
    by blast
qed

text \<open>
  C1, as stated, fails: with no record for the entity \<^verbatim>\<open>widget\<close> in the registry, the stage
  made by \<^verbatim>\<open>can\<close> still reads the caller's permissions, and does so before \<^verbatim>\<open>authorize\<close>, and
  with it the registry lookup, is called.
\<close>

theorem can_reads_permissions_without_policy:
  "sample_policies ''widget'' = None
   \<and> events (can sample_authorize sample_policies ''edit'' ''widget''
        ((sample_request ''/widgets/1'' None (Some ''1''))\<lparr>user := Value alice\<rparr>))
       = [ReadPermissions, CallAuthorize, ConsoleLog MissingPolicy]"
  by (simp add: can_def user_permissions_def sample_authorize_def sample_policies_def
      sample_request_def alice_def)

lemma can_events:
  "events (can authorize policies action entity req)
     = (case user req of
          Value u \<Rightarrow>
            (case permissions u of
               Inl e \<Rightarrow> [ReadPermissions, ConsoleLog e]
             | Inr perms \<Rightarrow>
                 (case authorize action entity perms policies req of
                    Inl e \<Rightarrow> [ReadPermissions, CallAuthorize, ConsoleLog e]
                  | Inr allowed \<Rightarrow> [ReadPermissions, CallAuthorize]))
        | Undefined \<Rightarrow> [ConsoleLog TypeError]
        | Null \<Rightarrow> [ConsoleLog TypeError])"
  by (simp add: can_def user_permissions_def split: caller.splits sum.splits)

text \<open>
  C1, amended. Whatever the engine and the registry hold, the stage made by \<^verbatim>\<open>can\<close> evaluates
  the permission source before the registry lookup: with a caller attached the stage reads
  the caller's permissions first; once they are obtained the next thing it does is to call
  \<^verbatim>\<open>authorize\<close>; and \<^verbatim>\<open>authorize\<close> is never called without the permissions having been read
  just before.
\<close>

theorem can_permissions_before_registry:
  "(user req = Value u \<longrightarrow>
      (\<exists>rest. events (can authorize policies action entity req) = ReadPermissions # rest))
   \<and> (user req = Value u \<and> permissions u = Inr perms \<longrightarrow>
      (\<exists>rest. events (can authorize policies action entity req)
                = ReadPermissions # CallAuthorize # rest))
   \<and> (CallAuthorize \<in> set (events (can authorize policies action entity req)) \<longrightarrow>
      (\<exists>rest. events (can authorize policies action entity req)
                = ReadPermissions # CallAuthorize # rest))"
  by (simp add: can_events split: caller.splits sum.splits)

theorem can_permissions_before_registry_witness:
  "user ((sample_request ''/widgets/1'' None (Some ''1''))\<lparr>user := Value alice\<rparr>) = Value alice
   \<and> permissions alice = Inr [''article.edit'']
   \<and> sample_policies ''widget'' = None
   \<and> CallAuthorize \<in> set (events (can sample_authorize sample_policies ''edit'' ''widget''
          ((sample_request ''/widgets/1'' None (Some ''1''))\<lparr>user := Value alice\<rparr>)))
   \<and> (\<exists>rest. events (can sample_authorize sample_policies ''edit'' ''widget''
          ((sample_request ''/widgets/1'' None (Some ''1''))\<lparr>user := Value alice\<rparr>))
         = ReadPermissions # CallAuthorize # rest)"
proof -
  let ?r = "(sample_request ''/widgets/1'' None (Some ''1''))\<lparr>user := Value alice\<rparr>"
  have h: "user ?r = Value alice" by simp
  have q: "permissions alice = Inr [''article.edit'']" by (simp add: alice_def)
  have p: "sample_policies ''widget'' = None" by (simp add: sample_policies_def)
  note t = can_permissions_before_registry
        [where req = ?r and u = alice and perms = "[''article.edit'']"
           and authorize = sample_authorize and policies = sample_policies
           and action = "''edit''" and entity = "''widget''"]
  from t h q have e: "\<exists>rest. events (can sample_authorize sample_policies ''edit'' ''widget'' ?r)
         = ReadPermissions # CallAuthorize # rest"
    by blast
  then have c: "CallAuthorize \<in> set (events (can sample_authorize sample_policies ''edit'' ''widget'' ?r))"
    by auto
  show ?thesis
    using h q p c e by blast
qed

text \<open>
  C5. Where the caller's permissions are obtained, the stage made by \<^verbatim>\<open>can\<close> continues to the
  next handler when the engine allows (returns a truthy value), and when it denies (returns
  a falsy value) responds 403 with the message "You are not authorized to perform this
  action." and runs no later handler.
\<close>

theorem can_allowed_continues_denied_403:
  assumes "user req = Value u" and "permissions u = Inr perms"
  shows "(authorize action entity perms policies req = Inr True \<longrightarrow>
            can authorize policies action entity req
              = \<lparr>events = [ReadPermissions, CallAuthorize], req_after = req, step = Next\<rparr>
          \<and> run (can authorize policies action entity # rest) req
              = (run rest req)\<lparr>events := [ReadPermissions, CallAuthorize] @ events (run rest req)\<rparr>)
     \<and> (authorize action entity perms policies req = Inr False \<longrightarrow>
            can authorize policies action entity req
              = \<lparr>events = [ReadPermissions, CallAuthorize], req_after = req,
                 step = Respond 403 ''You are not authorized to perform this action.''\<rparr>
          \<and> run (can authorize policies action entity # rest) req
              = can authorize policies action entity req)"
proof -
  have p: "user_permissions req = ([ReadPermissions], Inr perms)"
    using assms by (simp add: user_permissions_def)
  show ?thesis
    by (simp add: can_def p Let_def)
qed

theorem can_allowed_continues_denied_403_witness:
  "user ((sample_request ''/articles/42'' None (Some ''42''))\<lparr>user := Value alice\<rparr>) = Value alice
   \<and> permissions alice = Inr [''article.edit'']
   \<and> sample_authorize ''edit'' ''article'' [''article.edit''] sample_policies
        ((sample_request ''/articles/42'' None (Some ''42''))\<lparr>user := Value alice\<rparr>) = Inr True
   \<and> sample_authorize ''delete'' ''article'' [''article.edit''] sample_policies
        ((sample_request ''/articles/42'' None (Some ''42''))\<lparr>user := Value alice\<rparr>) = Inr False
   \<and> step (can sample_authorize sample_policies ''edit'' ''article''
        ((sample_request ''/articles/42'' None (Some ''42''))\<lparr>user := Value alice\<rparr>)) = Next
   \<and> step (can sample_authorize sample_policies ''delete'' ''article''
        ((sample_request ''/articles/42'' None (Some ''42''))\<lparr>user := Value alice\<rparr>))
       = Respond 403 ''You are not authorized to perform this action.''"
proof -
  let ?r = "(sample_request ''/articles/42'' None (Some ''42''))\<lparr>user := Value alice\<rparr>"
  have h1: "user ?r = Value alice" by simp
  have h2: "permissions alice = Inr [''article.edit'']" by (simp add: alice_def)
  have h3: "sample_authorize ''edit'' ''article'' [''article.edit''] sample_policies ?r = Inr True"
    by (simp add: sample_authorize_def sample_policies_def)
  have h4: "sample_authorize ''delete'' ''article'' [''article.edit''] sample_policies ?r = Inr False"
    by (simp add: sample_authorize_def sample_policies_def)
  have a: "can sample_authorize sample_policies ''edit'' ''article'' ?r
      = \<lparr>events = [ReadPermissions, CallAuthorize], req_after = ?r, step = Next\<rparr>"
    using h1 h2 h3 can_allowed_continues_denied_403 [where req = ?r and u = alice
        and perms = "[''article.edit'']" and action = "''edit''" and entity = "''article''"
        and authorize = sample_authorize and policies = sample_policies]
    by blast
  have b: "can sample_authorize sample_policies ''delete'' ''article'' ?r
      = \<lparr>events = [ReadPermissions, CallAuthorize], req_after = ?r,
         step = Respond 403 ''You are not authorized to perform this action.''\<rparr>"
    using h1 h2 h4 can_allowed_continues_denied_403 [where req = ?r and u = alice
        and perms = "[''article.edit'']" and action = "''delete''" and entity = "''article''"
        and authorize = sample_authorize and policies = sample_policies]
    by blast
  show ?thesis using h1 h2 h3 h4 by (simp add: a b)
qed

lemma store_failure:
  "store key message (sent, Inl e) req
     = \<lparr>events = sent, req_after = req, step = Respond 404 message\<rparr>"
  by (simp add: store_def)

lemma article_lookup_fails:
  assumes "outage d \<noteq> None \<or> (\<forall>a\<in>set (Articles d). i \<noteq> Some (article_id a))"
  shows "\<exists>e. orFail (populate_owner_minus_password (Article_findOne_id i)) d = ([QueryArticles], Inl e)"
proof (cases "outage d")
  case None
  with assms have "find (\<lambda>a. i = Some (article_id a)) (Articles d) = None"
    by (simp add: find_None_iff)
  with None show ?thesis
    by (simp add: orFail_def populate_owner_minus_password_def Article_findOne_id_def findOne_def)
next
  case (Some e)
  then show ?thesis
    by (simp add: orFail_def populate_owner_minus_password_def Article_findOne_id_def findOne_def)
qed

lemma role_lookup_fails:
  assumes "outage d \<noteq> None \<or> (\<forall>r\<in>set (Roles d). i \<noteq> Some (role_id r))"
  shows "\<exists>e. orFail (Role_findOne_id i) d = ([QueryRoles], Inl e)"
proof (cases "outage d")
  case None
  with assms have "find (\<lambda>r. i = Some (role_id r)) (Roles d) = None"
    by (simp add: find_None_iff)
  with None show ?thesis
    by (simp add: orFail_def Role_findOne_id_def findOne_def)
next
  case (Some e)
  then show ?thesis
    by (simp add: orFail_def Role_findOne_id_def findOne_def)
qed

lemma user_lookup_fails:
  assumes "outage d \<noteq> None \<or> (\<forall>u\<in>set (Users d). i \<noteq> Some (user_id u))"
  shows "\<exists>e. orFail (populate_roles (User_findOne_id i)) d = ([QueryUsers], Inl e)"
proof (cases "outage d")
  case None
  with assms have "find (\<lambda>u. i = Some (user_id u)) (Users d) = None"
    by (simp add: find_None_iff)
  with None show ?thesis
    by (simp add: orFail_def populate_roles_def User_findOne_id_def findOne_def)
next
  case (Some e)
  then show ?thesis
    by (simp add: orFail_def populate_roles_def User_findOne_id_def findOne_def)
qed

lemma processArticleParam_failure:
  assumes "outage d \<noteq> None \<or> (\<forall>a\<in>set (Articles d). params req ''id'' \<noteq> Some (article_id a))"
  shows "processArticleParam d req
     = \<lparr>events = [QueryArticles], req_after = req, step = Respond 404 ''The article does not exist.''\<rparr>"
proof -
  from article_lookup_fails [OF assms] obtain e where
    "orFail (populate_owner_minus_password (Article_findOne_id (params req ''id''))) d
       = ([QueryArticles], Inl e)" ..
  then show ?thesis
    by (simp add: processArticleParam_def store_failure)
qed

lemma processRoleParam_failure:
  assumes "outage d \<noteq> None \<or> (\<forall>r\<in>set (Roles d). params req ''id'' \<noteq> Some (role_id r))"
  shows "processRoleParam d req
     = \<lparr>events = [QueryRoles], req_after = req, step = Respond 404 ''The role does not exist.''\<rparr>"
proof -
  from role_lookup_fails [OF assms] obtain e where
    "orFail (Role_findOne_id (params req ''id'')) d = ([QueryRoles], Inl e)" ..
  then show ?thesis
    by (simp add: processRoleParam_def store_failure)
qed

lemma processUserParam_failure:
  assumes "outage d \<noteq> None \<or> (\<forall>u\<in>set (Users d). params req ''id'' \<noteq> Some (user_id u))"
  shows "processUserParam d req
     = \<lparr>events = [QueryUsers], req_after = req, step = Respond 404 ''The user does not exist.''\<rparr>"
proof -
  from user_lookup_fails [OF assms] obtain e where
    "orFail (populate_roles (User_findOne_id (params req ''id''))) d = ([QueryUsers], Inl e)" ..
  then show ?thesis
    by (simp add: processUserParam_def store_failure)
qed

text \<open>
  C6. For each of the three resolution stages, where no stored record has the id of the
  request or the lookup rejects, the stage responds 404 with its own message and leaves the
  request, and so the context, as it was: nothing is assigned under the stage's key.
\<close>

theorem resolution_failure_404_context_unchanged:
  "(outage d \<noteq> None \<or> (\<forall>a\<in>set (Articles d). params req ''id'' \<noteq> Some (article_id a)) \<longrightarrow>
      processArticleParam d req
        = \<lparr>events = [QueryArticles], req_after = req,
           step = Respond 404 ''The article does not exist.''\<rparr>)
   \<and> (outage d \<noteq> None \<or> (\<forall>r\<in>set (Roles d). params req ''id'' \<noteq> Some (role_id r)) \<longrightarrow>
      processRoleParam d req
        = \<lparr>events = [QueryRoles], req_after = req,
           step = Respond 404 ''The role does not exist.''\<rparr>)
   \<and> (outage d \<noteq> None \<or> (\<forall>u\<in>set (Users d). params req ''id'' \<noteq> Some (user_id u)) \<longrightarrow>
      processUserParam d req
        = \<lparr>events = [QueryUsers], req_after = req,
           step = Respond 404 ''The user does not exist.''\<rparr>)"
  using processArticleParam_failure processRoleParam_failure processUserParam_failure
  by blast

theorem resolution_failure_404_context_unchanged_witness:
  "params (req_after (init (sample_request ''/x/7'' None (Some ''7'')))) ''id'' = Some ''7''
   \<and> map article_id (Articles sample_db) = [''42'']
   \<and> map role_id (Roles sample_db) = [''r1'']
   \<and> outage (sample_db\<lparr>outage := Some (Failure ''down'')\<rparr>) \<noteq> None
   \<and> req_after (processArticleParam sample_db (req_after (init (sample_request ''/x/7'' None (Some ''7'')))))
       = req_after (init (sample_request ''/x/7'' None (Some ''7'')))
   \<and> step (processArticleParam sample_db (req_after (init (sample_request ''/x/7'' None (Some ''7'')))))
       = Respond 404 ''The article does not exist.''
   \<and> step (processRoleParam sample_db (req_after (init (sample_request ''/x/7'' None (Some ''7'')))))
       = Respond 404 ''The role does not exist.''
   \<and> processUserParam (sample_db\<lparr>outage := Some (Failure ''down'')\<rparr>)
         (req_after (init (sample_request ''/x/7'' None (Some ''7''))))
       = \<lparr>events = [QueryUsers], req_after = req_after (init (sample_request ''/x/7'' None (Some ''7''))),
          step = Respond 404 ''The user does not exist.''\<rparr>"
proof -
  let ?r = "req_after (init (sample_request ''/x/7'' None (Some ''7'')))"
  have p: "params ?r ''id'' = Some ''7''"
    by (simp add: init_def sample_request_def)
  have h1: "\<forall>a\<in>set (Articles sample_db). params ?r ''id'' \<noteq> Some (article_id a)"
    by (simp add: p sample_db_def article42_def)
  have h2: "\<forall>r\<in>set (Roles sample_db). params ?r ''id'' \<noteq> Some (role_id r)"
    by (simp add: p sample_db_def editor_def)
  have h3: "outage (sample_db\<lparr>outage := Some (Failure ''down'')\<rparr>) \<noteq> None"
    by simp
  have a: "processArticleParam sample_db ?r
      = \<lparr>events = [QueryArticles], req_after = ?r, step = Respond 404 ''The article does not exist.''\<rparr>"
    using h1 resolution_failure_404_context_unchanged [where d = sample_db and req = ?r] by blast
  have b: "processRoleParam sample_db ?r
      = \<lparr>events = [QueryRoles], req_after = ?r, step = Respond 404 ''The role does not exist.''\<rparr>"
    using h2 resolution_failure_404_context_unchanged [where d = sample_db and req = ?r] by blast
  have c: "processUserParam (sample_db\<lparr>outage := Some (Failure ''down'')\<rparr>) ?r
      = \<lparr>events = [QueryUsers], req_after = ?r, step = Respond 404 ''The user does not exist.''\<rparr>"
    using h3 resolution_failure_404_context_unchanged
      [where d = "sample_db\<lparr>outage := Some (Failure ''down'')\<rparr>" and req = ?r] by blast
  have m: "map article_id (Articles sample_db) = [''42'']" "map role_id (Roles sample_db) = [''r1'']"
    by (simp_all add: sample_db_def article42_def editor_def)
  show ?thesis using p m h3 by (simp add: a b c)
qed

text \<open>
  C7, as stated, fails: the 401 and 500 messages the middleware sends are not the strings of
  the spec's table.
\<close>

theorem response_messages_differ_from_table:
  "step (authenticate sample_decode sample_db (sample_request ''/articles/42'' None (Some ''42'')))
      = Respond 401 ''Sorry :( Log in and try again.''
   \<and> step (authenticate sample_decode sample_db (sample_request ''/articles/42'' None (Some ''42'')))
      \<noteq> Respond 401 spec_auth_failure_message
   \<and> step (can sample_authorize sample_policies ''edit'' ''widget''
        ((sample_request ''/widgets/1'' None (Some ''1''))\<lparr>user := Value alice\<rparr>))
      = Respond 500 ''Sorry :( Something bad happened.''
   \<and> step (can sample_authorize sample_policies ''edit'' ''widget''
        ((sample_request ''/widgets/1'' None (Some ''1''))\<lparr>user := Value alice\<rparr>))
      \<noteq> Respond 500 spec_config_fault_message"
  by (simp add: authenticate_def sample_decode_def sample_request_def can_def
      user_permissions_def sample_authorize_def sample_policies_def alice_def
      spec_auth_failure_message_def spec_config_fault_message_def)

lemma authenticate_step:
  "step (authenticate decodeAuthToken d req) = Next
   \<or> step (authenticate decodeAuthToken d req) = Respond 401 ''Sorry :( Log in and try again.''"
  by (simp add: authenticate_def split: sum.splits prod.splits)

lemma can_step:
  "step (can authorize policies action entity req) = Next
   \<or> step (can authorize policies action entity req) = Respond 403 ''You are not authorized to perform this action.''
   \<or> step (can authorize policies action entity req) = Respond 500 ''Sorry :( Something bad happened.''"
  by (simp add: can_def split: prod.splits sum.splits)

text \<open>
  C7, amended. Every response of \<^verbatim>\<open>authenticate\<close> is a 401 with the message
  "Sorry :( Log in and try again.", and every 500 response of a stage made by \<^verbatim>\<open>can\<close>
  carries the message "Sorry :( Something bad happened.".
\<close>

theorem response_messages:
  "(step (authenticate decodeAuthToken d req) = Respond status message \<longrightarrow>
      status = 401 \<and> message = ''Sorry :( Log in and try again.'')
   \<and> (step (can authorize policies action entity req) = Respond 500 message' \<longrightarrow>
        message' = ''Sorry :( Something bad happened.'')"
  using authenticate_step [of decodeAuthToken d req] can_step [of authorize policies action entity req]
  by auto

theorem response_messages_witness:
  "step (authenticate sample_decode sample_db (sample_request ''/articles/42'' None (Some ''42'')))
      = Respond 401 ''Sorry :( Log in and try again.''
   \<and> step (can sample_authorize sample_policies ''view'' ''article''
        ((sample_request ''/articles/42'' None (Some ''42''))\<lparr>user := Value alice\<rparr>))
      = Respond 500 ''Sorry :( Something bad happened.''"
proof -
  let ?r = "sample_request ''/articles/42'' None (Some ''42'')"
  have a: "\<exists>status message. step (authenticate sample_decode sample_db ?r) = Respond status message"
    by (simp add: authenticate_def sample_decode_def sample_request_def)
  have c: "\<exists>message. step (can sample_authorize sample_policies ''view'' ''article'' (?r\<lparr>user := Value alice\<rparr>))
      = Respond 500 message"
    by (simp add: can_def user_permissions_def sample_authorize_def sample_policies_def
        sample_request_def alice_def)
  from a obtain status message where
    a': "step (authenticate sample_decode sample_db ?r) = Respond status message" by blast
  from c obtain message' where
    c': "step (can sample_authorize sample_policies ''view'' ''article'' (?r\<lparr>user := Value alice\<rparr>)) = Respond 500 message'"
    by blast
  have "status = 401 \<and> message = ''Sorry :( Log in and try again.''"
    using a' response_messages [where decodeAuthToken = sample_decode and d = sample_db
        and req = ?r and status = status and message = message] by blast
  moreover have "message' = ''Sorry :( Something bad happened.''"
    using c' response_messages [where authorize = sample_authorize and policies = sample_policies and action = "''view''"
        and entity = "''article''" and req = "?r\<lparr>user := Value alice\<rparr>" and message' = message']
    by blast
  ultimately show ?thesis using a' c' by simp
qed
















lemma populate_many_concat:
  "populate_many lookup rs
     = concat (map (\<lambda>r. case r of
                            Ref i \<Rightarrow> (case lookup i of None \<Rightarrow> [] | Some x \<Rightarrow> [Doc x])
                          | Doc x \<Rightarrow> [Doc x]
                          | NullRef \<Rightarrow> [NullRef]) rs)"
  by (induction lookup rs rule: populate_many.induct) (simp_all split: option.splits)

lemma populate_many_refs:
  "populate_many lookup (map Ref ids) = map Doc (List.map_filter lookup ids)"
  by (induction ids) (simp_all add: map_filter_simps split: option.splits)

lemma populate_one_cases:
  "populate_one lookup r
     = (case r of
          Ref i \<Rightarrow> (case lookup i of None \<Rightarrow> NullRef | Some x \<Rightarrow> Doc x)
        | Doc x \<Rightarrow> Doc x
        | NullRef \<Rightarrow> NullRef)"
  by (cases r) simp_all

lemma pending_iff: "pending r \<longleftrightarrow> (\<exists>i. r = Ref i)"
  by (cases r) simp_all

lemma list_ex_pending: "list_ex pending rs \<longleftrightarrow> (\<exists>i. Ref i \<in> set rs)"
  by (auto simp: list_ex_iff pending_iff)

lemma store_success:
  "req_context req = Some c \<Longrightarrow>
     store key message (sent, Inr x) req
       = \<lparr>events = sent @ [ContextWrite key],
          req_after = req\<lparr>req_context := Some (c(key \<mapsto> x))\<rparr>, step = Next\<rparr>"
  by (simp add: store_def)

lemma processUserParam_success:
  assumes "req_context req = Some c" and "outage d = None"
    and "find (\<lambda>u. params req ''id'' = Some (user_id u)) (Users d) = Some u"
  shows "processUserParam d req
     = \<lparr>events = QueryUsers # (if list_ex pending (roles u) then [QueryRoles] else [])
                   @ [ContextWrite ''user''],
        req_after = req\<lparr>req_context :=
          Some (c(''user'' \<mapsto> UserE (u\<lparr>roles := populate_many (role_by_id d) (roles u)\<rparr>)))\<rparr>,
        step = Next\<rparr>"
proof -
  have "orFail (populate_roles (User_findOne_id (params req ''id''))) d
      = (QueryUsers # (if list_ex pending (roles u) then [QueryRoles] else []),
         Inr (u\<lparr>roles := populate_many (role_by_id d) (roles u)\<rparr>))"
    using assms(2,3) by (simp add: orFail_def populate_roles_def User_findOne_id_def findOne_def)
  then show ?thesis
    using assms(1) by (simp add: processUserParam_def store_success)
qed

lemma processArticleParam_success:
  assumes "req_context req = Some c" and "outage d = None"
    and "find (\<lambda>a. params req ''id'' = Some (article_id a)) (Articles d) = Some a"
  shows "processArticleParam d req
     = \<lparr>events = QueryArticles # (if pending (owner a) then [QueryUsers] else [])
                   @ [ContextWrite ''article''],
        req_after = req\<lparr>req_context :=
          Some (c(''article'' \<mapsto> ArticleE (a\<lparr>owner :=
            populate_one (\<lambda>i. map_option (\<lambda>u. u\<lparr>password := None\<rparr>) (user_by_id d i))
              (owner a)\<rparr>)))\<rparr>,
        step = Next\<rparr>"
proof -
  have "orFail (populate_owner_minus_password (Article_findOne_id (params req ''id''))) d
      = (QueryArticles # (if pending (owner a) then [QueryUsers] else []),
         Inr (a\<lparr>owner :=
            populate_one (\<lambda>i. map_option (\<lambda>u. u\<lparr>password := None\<rparr>) (user_by_id d i))
              (owner a)\<rparr>))"
    using assms(2,3)
    by (simp add: orFail_def populate_owner_minus_password_def Article_findOne_id_def findOne_def)
  then show ?thesis
    using assms(1) by (simp add: processArticleParam_def store_success)
qed

text \<open>
  C9. On a successful lookup into an initialised context, \<^verbatim>\<open>processUserParam\<close> stores the
  user found with its roles replaced by exactly this: each id of the user's own role
  references that names a stored role becomes that role's document, in the order of the
  references, an id that names none is dropped, and nothing else is added.
  \<^verbatim>\<open>processArticleParam\<close> stores the article found with its owner reference replaced by the
  owner's document without the password (\<^verbatim>\<open>null\<close> where no user has the id). Both send the
  second query that loads the related documents before they write to the context.
\<close>

theorem resolution_eager_loads:
  assumes "req_context req = Some c" and "outage d = None"
  shows "(find (\<lambda>u. params req ''id'' = Some (user_id u)) (Users d) = Some u \<longrightarrow>
            processUserParam d req
              = \<lparr>events = QueryUsers # (if \<exists>i. Ref i \<in> set (roles u) then [QueryRoles] else [])
                            @ [ContextWrite ''user''],
                 req_after = req\<lparr>req_context := Some (c(''user'' \<mapsto> UserE (u\<lparr>roles :=
                   concat (map (\<lambda>r. case r of
                       Ref i \<Rightarrow> (case find (\<lambda>x. role_id x = i) (Roles d) of
                                   None \<Rightarrow> []
                                 | Some x \<Rightarrow> [Doc x])
                     | Doc x \<Rightarrow> [Doc x]
                     | NullRef \<Rightarrow> [NullRef]) (roles u))\<rparr>)))\<rparr>,
                 step = Next\<rparr>)
     \<and> (find (\<lambda>u. params req ''id'' = Some (user_id u)) (Users d) = Some u
          \<and> roles u = map Ref ids \<longrightarrow>
            req_context (req_after (processUserParam d req))
              = Some (c(''user'' \<mapsto> UserE (u\<lparr>roles :=
                   map Doc (List.map_filter (\<lambda>i. find (\<lambda>x. role_id x = i) (Roles d)) ids)\<rparr>))))
     \<and> (find (\<lambda>a. params req ''id'' = Some (article_id a)) (Articles d) = Some a \<longrightarrow>
            processArticleParam d req
              = \<lparr>events = QueryArticles # (if \<exists>i. owner a = Ref i then [QueryUsers] else [])
                            @ [ContextWrite ''article''],
                 req_after = req\<lparr>req_context := Some (c(''article'' \<mapsto> ArticleE (a\<lparr>owner :=
                   (case owner a of
                      Ref i \<Rightarrow> (case find (\<lambda>x. user_id x = i) (Users d) of
                                  None \<Rightarrow> NullRef
                                | Some x \<Rightarrow> Doc (x\<lparr>password := None\<rparr>))
                    | Doc x \<Rightarrow> Doc x
                    | NullRef \<Rightarrow> NullRef)\<rparr>)))\<rparr>,
                 step = Next\<rparr>)"
proof (intro conjI impI)
  assume f: "find (\<lambda>u. params req ''id'' = Some (user_id u)) (Users d) = Some u"
  have l: "populate_many (role_by_id d) (roles u)
      = concat (map (\<lambda>r. case r of
                       Ref i \<Rightarrow> (case find (\<lambda>x. role_id x = i) (Roles d) of
                                   None \<Rightarrow> []
                                 | Some x \<Rightarrow> [Doc x])
                     | Doc x \<Rightarrow> [Doc x]
                     | NullRef \<Rightarrow> [NullRef]) (roles u))"
    unfolding populate_many_concat role_by_id_def by (rule refl)
  show "processUserParam d req
      = \<lparr>events = QueryUsers # (if \<exists>i. Ref i \<in> set (roles u) then [QueryRoles] else [])
                    @ [ContextWrite ''user''],
         req_after = req\<lparr>req_context := Some (c(''user'' \<mapsto> UserE (u\<lparr>roles :=
           concat (map (\<lambda>r. case r of
               Ref i \<Rightarrow> (case find (\<lambda>x. role_id x = i) (Roles d) of
                           None \<Rightarrow> []
                         | Some x \<Rightarrow> [Doc x])
             | Doc x \<Rightarrow> [Doc x]
             | NullRef \<Rightarrow> [NullRef]) (roles u))\<rparr>)))\<rparr>,
         step = Next\<rparr>"
    unfolding processUserParam_success [OF assms f] l list_ex_pending ..
next
  assume "find (\<lambda>u. params req ''id'' = Some (user_id u)) (Users d) = Some u
      \<and> roles u = map Ref ids"
  then have f: "find (\<lambda>u. params req ''id'' = Some (user_id u)) (Users d) = Some u"
    and r: "roles u = map Ref ids"
    by simp_all
  have "populate_many (role_by_id d) (roles u)
      = map Doc (List.map_filter (\<lambda>i. find (\<lambda>x. role_id x = i) (Roles d)) ids)"
    unfolding r populate_many_refs by (simp add: role_by_id_def [abs_def])
  then show "req_context (req_after (processUserParam d req))
      = Some (c(''user'' \<mapsto> UserE (u\<lparr>roles :=
           map Doc (List.map_filter (\<lambda>i. find (\<lambda>x. role_id x = i) (Roles d)) ids)\<rparr>)))"
    by (simp add: processUserParam_success [OF assms f])
next
  assume f: "find (\<lambda>a. params req ''id'' = Some (article_id a)) (Articles d) = Some a"
  have l: "populate_one (\<lambda>i. map_option (\<lambda>u. u\<lparr>password := None\<rparr>) (user_by_id d i)) (owner a)
      = (case owner a of
           Ref i \<Rightarrow> (case find (\<lambda>x. user_id x = i) (Users d) of
                       None \<Rightarrow> NullRef
                     | Some x \<Rightarrow> Doc (x\<lparr>password := None\<rparr>))
         | Doc x \<Rightarrow> Doc x
         | NullRef \<Rightarrow> NullRef)"
    unfolding populate_one_cases user_by_id_def by (simp split: ref.splits option.splits)
  show "processArticleParam d req
      = \<lparr>events = QueryArticles # (if \<exists>i. owner a = Ref i then [QueryUsers] else [])
                    @ [ContextWrite ''article''],
         req_after = req\<lparr>req_context := Some (c(''article'' \<mapsto> ArticleE (a\<lparr>owner :=
           (case owner a of
              Ref i \<Rightarrow> (case find (\<lambda>x. user_id x = i) (Users d) of
                          None \<Rightarrow> NullRef
                        | Some x \<Rightarrow> Doc (x\<lparr>password := None\<rparr>))
            | Doc x \<Rightarrow> Doc x
            | NullRef \<Rightarrow> NullRef)\<rparr>)))\<rparr>,
         step = Next\<rparr>"
    unfolding processArticleParam_success [OF assms f] l pending_iff ..
qed

theorem resolution_eager_loads_witness:
  "req_context (req_after (init (sample_request ''/users/u1'' None (Some ''u1'')))) = Some Map.empty
   \<and> outage sample_db = None
   \<and> find (\<lambda>u. params (req_after (init (sample_request ''/users/u1'' None (Some ''u1'')))) ''id''
              = Some (user_id u)) (Users sample_db) = Some alice
   \<and> roles alice = map Ref [''r1'', ''r9'']
   \<and> find (\<lambda>a. params (req_after (init (sample_request ''/articles/42'' None (Some ''42'')))) ''id''
              = Some (article_id a)) (Articles sample_db) = Some article42
   \<and> processUserParam sample_db (req_after (init (sample_request ''/users/u1'' None (Some ''u1''))))
        = \<lparr>events = [QueryUsers, QueryRoles, ContextWrite ''user''],
           req_after = (req_after (init (sample_request ''/users/u1'' None (Some ''u1''))))
             \<lparr>req_context := Some [''user'' \<mapsto> UserE (alice\<lparr>roles := [Doc editor]\<rparr>)]\<rparr>,
           step = Next\<rparr>
   \<and> req_context (req_after (processUserParam sample_db
          (req_after (init (sample_request ''/users/u1'' None (Some ''u1''))))))
        = Some [''user'' \<mapsto> UserE (alice\<lparr>roles := [Doc editor]\<rparr>)]
   \<and> processArticleParam sample_db
          (req_after (init (sample_request ''/articles/42'' None (Some ''42''))))
        = \<lparr>events = [QueryArticles, QueryUsers, ContextWrite ''article''],
           req_after = (req_after (init (sample_request ''/articles/42'' None (Some ''42''))))
             \<lparr>req_context :=
                Some [''article'' \<mapsto> ArticleE (article42\<lparr>owner := Doc (alice\<lparr>password := None\<rparr>)\<rparr>)]\<rparr>,
           step = Next\<rparr>"
proof -
  let ?ru = "req_after (init (sample_request ''/users/u1'' None (Some ''u1'')))"
  let ?ra = "req_after (init (sample_request ''/articles/42'' None (Some ''42'')))"
  have c: "req_context ?ru = Some Map.empty" "req_context ?ra = Some Map.empty"
    by (simp_all add: init_def)
  have o: "outage sample_db = None"
    by (simp add: sample_db_def)
  have fu: "find (\<lambda>u. params ?ru ''id'' = Some (user_id u)) (Users sample_db) = Some alice"
    by (simp add: init_def sample_request_def sample_db_def alice_def)
  have fa: "find (\<lambda>a. params ?ra ''id'' = Some (article_id a)) (Articles sample_db) = Some article42"
    by (simp add: init_def sample_request_def sample_db_def article42_def)
  have r: "roles alice = map Ref [''r1'', ''r9'']"
    by (simp add: alice_def)
  have w: "owner article42 = Ref ''u1''"
    by (simp add: article42_def)
  have lr: "find (\<lambda>x. role_id x = ''r1'') (Roles sample_db) = Some editor"
    "find (\<lambda>x. role_id x = ''r9'') (Roles sample_db) = None"
    by (simp_all add: sample_db_def editor_def)
  have lu: "find (\<lambda>x. user_id x = ''u1'') (Users sample_db) = Some alice"
    by (simp add: sample_db_def alice_def)
  note tu = resolution_eager_loads [where req = ?ru and c = Map.empty and d = sample_db
      and u = alice and ids = "[''r1'', ''r9'']", OF c(1) o]
  note ta = resolution_eager_loads [where req = ?ra and c = Map.empty and d = sample_db
      and a = article42, OF c(2) o]
  have u1: "processUserParam sample_db ?ru
        = \<lparr>events = [QueryUsers, QueryRoles, ContextWrite ''user''],
           req_after = ?ru\<lparr>req_context := Some [''user'' \<mapsto> UserE (alice\<lparr>roles := [Doc editor]\<rparr>)]\<rparr>,
           step = Next\<rparr>"
    using mp [OF conjunct1 [OF tu] fu] by (auto simp: r lr)
  have u2: "req_context (req_after (processUserParam sample_db ?ru))
        = Some [''user'' \<mapsto> UserE (alice\<lparr>roles := [Doc editor]\<rparr>)]"
    using mp [OF conjunct1 [OF conjunct2 [OF tu]] conjI [OF fu r]]
    by (simp add: lr map_filter_simps)
  have a1: "processArticleParam sample_db ?ra
        = \<lparr>events = [QueryArticles, QueryUsers, ContextWrite ''article''],
           req_after = ?ra\<lparr>req_context :=
              Some [''article'' \<mapsto> ArticleE (article42\<lparr>owner := Doc (alice\<lparr>password := None\<rparr>)\<rparr>)]\<rparr>,
           step = Next\<rparr>"
    using mp [OF conjunct2 [OF conjunct2 [OF ta]] fa] by (simp add: w lu)
  show ?thesis
    using c(1) o fu r fa u1 u2 a1 by (simp only: simp_thms)
qed

end
